theory Spec2Isabelle
  imports Complex_Main
begin

text \<open>
  The client-side code of the game site: the two carousels (\<open>StoryCarousel\<close>,
  \<open>AdvancedHeroCarousel\<close>), the scroll-driven reveal classes (\<open>ScrollReveal3D\<close>,
  \<open>ProgressiveScrollReveal\<close>), the error mapping of \<open>firebaseAuth\<close> and
  \<open>GameAPI.getCurrentUserId\<close>. The first part of the theory is the model, one
  definition per method, named after it; the second part states and proves the
  properties C1 to C10.
\<close>

section \<open>JavaScript numbers\<close>

text \<open>
  A JavaScript number is an IEEE double. The model keeps the three special values
  apart and takes the finite ones as rationals: rounding and the sign of zero are left
  out (every zero is the positive one). On integers below \<open>2^53\<close>, which is what the
  carousels compute with, the operations below are exact.
\<close>

datatype jsnum = Fin rat | PosInf | NegInf | NaN

fun js_neg :: "jsnum \<Rightarrow> jsnum" where
  "js_neg (Fin a) = Fin (- a)"
| "js_neg PosInf = NegInf"
| "js_neg NegInf = PosInf"
| "js_neg NaN = NaN"

fun js_add :: "jsnum \<Rightarrow> jsnum \<Rightarrow> jsnum" where
  "js_add (Fin a) (Fin b) = Fin (a + b)"
| "js_add NaN _ = NaN"
| "js_add _ NaN = NaN"
| "js_add PosInf NegInf = NaN"
| "js_add NegInf PosInf = NaN"
| "js_add PosInf _ = PosInf"
| "js_add _ PosInf = PosInf"
| "js_add NegInf _ = NegInf"
| "js_add _ NegInf = NegInf"

definition js_sub :: "jsnum \<Rightarrow> jsnum \<Rightarrow> jsnum" where
  "js_sub x y = js_add x (js_neg y)"

fun js_sign :: "jsnum \<Rightarrow> int" where
  "js_sign (Fin a) = (if a < 0 then - 1 else if a = 0 then 0 else 1)"
| "js_sign PosInf = 1"
| "js_sign NegInf = - 1"
| "js_sign NaN = 0"

definition signed_inf :: "int \<Rightarrow> jsnum" where
  "signed_inf k = (if k = 0 then NaN else if 0 < k then PosInf else NegInf)"

fun js_mul :: "jsnum \<Rightarrow> jsnum \<Rightarrow> jsnum" where
  "js_mul (Fin a) (Fin b) = Fin (a * b)"
| "js_mul NaN _ = NaN"
| "js_mul _ NaN = NaN"
| "js_mul x y = signed_inf (js_sign x * js_sign y)"

text \<open>Division: \<open>0/0\<close> is NaN, \<open>x/0\<close> is an infinity with the sign of \<open>x\<close>.\<close>

fun js_div :: "jsnum \<Rightarrow> jsnum \<Rightarrow> jsnum" where
  "js_div (Fin a) (Fin b) = (if b = 0 then signed_inf (js_sign (Fin a)) else Fin (a / b))"
| "js_div NaN _ = NaN"
| "js_div _ NaN = NaN"
| "js_div (Fin a) _ = Fin 0"
| "js_div x (Fin b) = signed_inf (js_sign x * (if b < 0 then - 1 else 1))"
| "js_div _ _ = NaN"

definition js_trunc :: "rat \<Rightarrow> int" where
  "js_trunc x = (if 0 \<le> x then \<lfloor>x\<rfloor> else \<lceil>x\<rceil>)"

text \<open>The operator \<open>%\<close>: the remainder of the truncated division (sign of the dividend).\<close>

fun js_rem :: "jsnum \<Rightarrow> jsnum \<Rightarrow> jsnum" where
  "js_rem (Fin a) (Fin b) = (if b = 0 then NaN else Fin (a - b * of_int (js_trunc (a / b))))"
| "js_rem NaN _ = NaN"
| "js_rem _ NaN = NaN"
| "js_rem (Fin a) _ = Fin a"
| "js_rem _ _ = NaN"

fun js_lt :: "jsnum \<Rightarrow> jsnum \<Rightarrow> bool" where
  "js_lt (Fin a) (Fin b) = (a < b)"
| "js_lt NaN _ = False"
| "js_lt _ NaN = False"
| "js_lt _ NegInf = False"
| "js_lt PosInf _ = False"
| "js_lt _ _ = True"

definition js_gt :: "jsnum \<Rightarrow> jsnum \<Rightarrow> bool" where
  "js_gt x y = js_lt y x"

text \<open>Strict equality \<open>===\<close> on numbers: NaN equals nothing.\<close>

fun js_seq :: "jsnum \<Rightarrow> jsnum \<Rightarrow> bool" where
  "js_seq NaN _ = False"
| "js_seq _ NaN = False"
| "js_seq x y = (x = y)"

definition js_le :: "jsnum \<Rightarrow> jsnum \<Rightarrow> bool" where
  "js_le x y = (js_lt x y \<or> js_seq x y)"

definition js_ge :: "jsnum \<Rightarrow> jsnum \<Rightarrow> bool" where
  "js_ge x y = js_le y x"

fun js_abs :: "jsnum \<Rightarrow> jsnum" where
  "js_abs (Fin a) = Fin \<bar>a\<bar>"
| "js_abs NaN = NaN"
| "js_abs _ = PosInf"

text \<open>\<open>Math.min\<close> and \<open>Math.max\<close> of two numbers: NaN as soon as one argument is.\<close>

fun js_min :: "jsnum \<Rightarrow> jsnum \<Rightarrow> jsnum" where
  "js_min NaN _ = NaN"
| "js_min _ NaN = NaN"
| "js_min x y = (if js_lt y x then y else x)"

fun js_max :: "jsnum \<Rightarrow> jsnum \<Rightarrow> jsnum" where
  "js_max NaN _ = NaN"
| "js_max _ NaN = NaN"
| "js_max x y = (if js_lt x y then y else x)"

section \<open>Exceptions and effects\<close>

text \<open>
  A method that mutates its object and may throw returns the state it reached together
  with the way it ended: what was assigned before a throw stays assigned.
\<close>

datatype error = TypeError | InvalidCharacterError | SyntaxError

datatype 's outcome = Done 's | Threw error 's

fun state_of :: "'s outcome \<Rightarrow> 's" where
  "state_of (Done s) = s"
| "state_of (Threw e s) = s"

fun and_then :: "'s outcome \<Rightarrow> ('s \<Rightarrow> 's outcome) \<Rightarrow> 's outcome" where
  "and_then (Done s) f = f s"
| "and_then (Threw e s) f = Threw e s"

fun completes :: "'s outcome \<Rightarrow> bool" where
  "completes (Done s) = True"
| "completes (Threw e s) = False"

section \<open>Interval timers\<close>

text \<open>
  Both carousels keep the fields \<open>autoPlayInterval\<close> and \<open>isAutoPlaying\<close>. The window's
  interval timers are part of the state: \<open>intervals\<close> lists the handles that are
  scheduled, \<open>next_handle\<close> is the handle the next \<open>setInterval\<close> returns.
  \<open>setInterval\<close> schedules a new interval and returns its handle; \<open>clearInterval\<close>
  takes a handle off the schedule and does nothing for a handle that is not on it.
  Browsers hand out positive handles; the handle 0 would be falsy in
  \<open>if (this.autoPlayInterval)\<close>, and the methods below test for it.
\<close>

record autoplayer =
  autoPlayInterval :: "nat option"
  isAutoPlaying :: bool
  intervals :: "nat list"
  next_handle :: nat

definition setInterval :: "'a autoplayer_scheme \<Rightarrow> nat \<times> 'a autoplayer_scheme" where
  "setInterval s =
     (next_handle s,
      s\<lparr>intervals := intervals s @ [next_handle s], next_handle := Suc (next_handle s)\<rparr>)"

definition clearInterval :: "nat \<Rightarrow> 'a autoplayer_scheme \<Rightarrow> 'a autoplayer_scheme" where
  "clearInterval h s = s\<lparr>intervals := removeAll h (intervals s)\<rparr>"

section \<open>StoryCarousel (js/api-client.js)\<close>

text \<open>
  The object's fields and the part of the page it touches. An element looked up with
  \<open>getElementById\<close> is \<open>None\<close> when the page does not have it; \<open>storySlides\<close> holds
  \<open>v\<close> when the transform last written is \<open>translateX(-v%)\<close>, \<open>storyProgress\<close> the width
  in percent last written, \<open>indicators\<close> the \<open>active\<close> class of each \<open>.story-indicator\<close>.
  The button's caption is left out; \<open>btn_icon\<close> is the class of its \<open><i></i>\<close> child.
  The calls to \<open>trackEvent\<close> hand the event to the analytics sink and are left out.
\<close>

record toggle_button =
  btn_active :: bool
  btn_icon :: "string option"

record story_carousel = autoplayer +
  currentSlide :: jsnum
  totalSlides :: nat
  storySlides :: "jsnum option"
  storyProgress :: "jsnum option"
  indicators :: "bool list"
  autoPlayToggle :: "toggle_button option"

definition num :: "nat \<Rightarrow> jsnum" where
  "num n = Fin (of_nat n)"

definition StoryCarousel_updateSlide :: "story_carousel \<Rightarrow> story_carousel outcome" where
  "StoryCarousel_updateSlide s =
     (case storySlides s of
        None \<Rightarrow> Threw TypeError s
      | Some _ \<Rightarrow>
          let s1 = s\<lparr>storySlides := Some (js_mul (currentSlide s) (Fin 100))\<rparr>;
              progress = js_mul (js_div (js_add (currentSlide s1) (Fin 1)) (num (totalSlides s1))) (Fin 100)
          in (case storyProgress s1 of
                None \<Rightarrow> Threw TypeError s1
              | Some _ \<Rightarrow>
                  let s2 = s1\<lparr>storyProgress := Some progress\<rparr>
                  in Done (s2\<lparr>indicators :=
                       map (\<lambda>index. js_seq (num index) (currentSlide s2))
                         [0 ..< length (indicators s2)]\<rparr>)))"

definition StoryCarousel_goToSlide :: "story_carousel \<Rightarrow> jsnum \<Rightarrow> story_carousel outcome" where
  "StoryCarousel_goToSlide s index = StoryCarousel_updateSlide (s\<lparr>currentSlide := index\<rparr>)"

definition StoryCarousel_nextSlide :: "story_carousel \<Rightarrow> story_carousel outcome" where
  "StoryCarousel_nextSlide s =
     StoryCarousel_updateSlide
       (s\<lparr>currentSlide := js_rem (js_add (currentSlide s) (Fin 1)) (num (totalSlides s))\<rparr>)"

definition StoryCarousel_prevSlide :: "story_carousel \<Rightarrow> story_carousel outcome" where
  "StoryCarousel_prevSlide s =
     StoryCarousel_updateSlide
       (s\<lparr>currentSlide :=
            js_rem (js_add (js_sub (currentSlide s) (Fin 1)) (num (totalSlides s)))
              (num (totalSlides s))\<rparr>)"

definition StoryCarousel_handleSwipe ::
  "story_carousel \<Rightarrow> jsnum \<Rightarrow> jsnum \<Rightarrow> story_carousel outcome" where
  "StoryCarousel_handleSwipe s startX endX =
     (let threshold = Fin 50; diff = js_sub startX endX
      in if js_gt (js_abs diff) threshold
         then (if js_gt diff (Fin 0) then StoryCarousel_nextSlide s
               else StoryCarousel_prevSlide s)
         else Done s)"

text \<open>A sequence of calls: each call is one event handler, and a handler that throws
  ends alone; the next event finds the state as the failed handler left it.\<close>

datatype nav = Next | Previous

fun StoryCarousel_step :: "story_carousel \<Rightarrow> nav \<Rightarrow> story_carousel" where
  "StoryCarousel_step s Next = state_of (StoryCarousel_nextSlide s)"
| "StoryCarousel_step s Previous = state_of (StoryCarousel_prevSlide s)"

definition StoryCarousel_run :: "story_carousel \<Rightarrow> nav list \<Rightarrow> story_carousel" where
  "StoryCarousel_run s cs = foldl StoryCarousel_step s cs"

section \<open>AdvancedHeroCarousel (js/api-client.js)\<close>

text \<open>
  \<open>items\<close> and \<open>dots\<close> come from \<open>querySelectorAll\<close>: lists, empty when the page has no
  such element. \<open>progressBar\<close> comes from \<open>getElementById\<close> and may be \<open>None\<close>; it holds
  the width in percent last written. An item records its \<open>active\<close> class and the three
  style properties the render writes.
\<close>

record carousel_item =
  item_active :: bool
  style_left :: string
  style_transform :: string
  style_zIndex :: string

record hero_carousel = autoplayer +
  currentIndex :: jsnum
  totalItems :: nat
  items :: "carousel_item list"
  dots :: "bool list"
  progressBar :: "jsnum option"

definition place_item :: "jsnum \<Rightarrow> nat \<Rightarrow> nat \<Rightarrow> carousel_item \<Rightarrow> carousel_item" where
  "place_item cur totalN index item =
     (let item1 = item\<lparr>item_active := False\<rparr>;
          relativeIndex = js_rem (js_add (js_sub (num index) cur) (num totalN)) (num totalN);
          item2 = item1\<lparr>style_left := [], style_transform := [], style_zIndex := []\<rparr>
      in if js_seq (num index) cur then
           item2\<lparr>item_active := True, style_left := ''50%'',
                 style_transform := ''translateX(-50%) scale(1.35)'', style_zIndex := ''5''\<rparr>
         else if js_seq relativeIndex (Fin 1) then
           item2\<lparr>style_left := ''90px'', style_zIndex := ''2''\<rparr>
         else if js_seq relativeIndex (Fin 2) then
           item2\<lparr>style_left := ''250px'', style_zIndex := ''1''\<rparr>
         else if js_seq relativeIndex (Fin 3) then
           item2\<lparr>style_left := ''-90px'', style_zIndex := ''2''\<rparr>
         else item2)"

definition AdvancedHeroCarousel_updateCarousel :: "hero_carousel \<Rightarrow> hero_carousel outcome" where
  "AdvancedHeroCarousel_updateCarousel s =
     (let s1 = s\<lparr>items := map (\<lambda>(index, item). place_item (currentIndex s) (totalItems s) index item)
                              (zip [0 ..< length (items s)] (items s))\<rparr>;
          s2 = s1\<lparr>dots := map (\<lambda>index. js_seq (num index) (currentIndex s1))
                            [0 ..< length (dots s1)]\<rparr>;
          progress = js_mul (js_div (js_add (currentIndex s2) (Fin 1)) (num (totalItems s2))) (Fin 100)
      in (case progressBar s2 of
            None \<Rightarrow> Done s2
          | Some _ \<Rightarrow> Done (s2\<lparr>progressBar := Some progress\<rparr>)))"

definition AdvancedHeroCarousel_nextSlide :: "hero_carousel \<Rightarrow> hero_carousel outcome" where
  "AdvancedHeroCarousel_nextSlide s =
     AdvancedHeroCarousel_updateCarousel
       (s\<lparr>currentIndex := js_rem (js_add (currentIndex s) (Fin 1)) (num (totalItems s))\<rparr>)"

definition AdvancedHeroCarousel_prevSlide :: "hero_carousel \<Rightarrow> hero_carousel outcome" where
  "AdvancedHeroCarousel_prevSlide s =
     AdvancedHeroCarousel_updateCarousel
       (s\<lparr>currentIndex :=
            js_rem (js_add (js_sub (currentIndex s) (Fin 1)) (num (totalItems s)))
              (num (totalItems s))\<rparr>)"

definition AdvancedHeroCarousel_goToSlide :: "hero_carousel \<Rightarrow> jsnum \<Rightarrow> hero_carousel outcome" where
  "AdvancedHeroCarousel_goToSlide s index =
     (if js_ge index (Fin 0) \<and> js_lt index (num (totalItems s))
      then AdvancedHeroCarousel_updateCarousel (s\<lparr>currentIndex := index\<rparr>)
      else Done s)"

fun AdvancedHeroCarousel_step :: "hero_carousel \<Rightarrow> nav \<Rightarrow> hero_carousel" where
  "AdvancedHeroCarousel_step s Next = state_of (AdvancedHeroCarousel_nextSlide s)"
| "AdvancedHeroCarousel_step s Previous = state_of (AdvancedHeroCarousel_prevSlide s)"

definition AdvancedHeroCarousel_run :: "hero_carousel \<Rightarrow> nav list \<Rightarrow> hero_carousel" where
  "AdvancedHeroCarousel_run s cs = foldl AdvancedHeroCarousel_step s cs"

text \<open>The cursor the specification predicts after a sequence of calls.\<close>

definition predicted_cursor :: "nat \<Rightarrow> nat \<Rightarrow> nav list \<Rightarrow> int" where
  "predicted_cursor N c0 cs =
     (int c0 + int (count_list cs Next) - int (count_list cs Previous)) mod int N"

text \<open>The same for one call.\<close>

definition step_cursor :: "nat \<Rightarrow> nat \<Rightarrow> nav \<Rightarrow> int" where
  "step_cursor n c x =
     (case x of Next \<Rightarrow> (int c + 1) mod int n | Previous \<Rightarrow> (int c - 1) mod int n)"

section \<open>Auto-play\<close>

subsection \<open>StoryCarousel\<close>

definition StoryCarousel_updateAutoPlayButton :: "story_carousel \<Rightarrow> story_carousel outcome" where
  "StoryCarousel_updateAutoPlayButton s =
     (case autoPlayToggle s of
        None \<Rightarrow> Threw TypeError s
      | Some button \<Rightarrow>
          let icon = btn_icon button in
          if isAutoPlaying s then
            (let button1 = button\<lparr>btn_active := True\<rparr> in
             case icon of
               None \<Rightarrow> Threw TypeError (s\<lparr>autoPlayToggle := Some button1\<rparr>)
             | Some _ \<Rightarrow> Done (s\<lparr>autoPlayToggle := Some (button1\<lparr>btn_icon := Some ''fas fa-pause''\<rparr>)\<rparr>))
          else
            (let button1 = button\<lparr>btn_active := False\<rparr> in
             case icon of
               None \<Rightarrow> Threw TypeError (s\<lparr>autoPlayToggle := Some button1\<rparr>)
             | Some _ \<Rightarrow> Done (s\<lparr>autoPlayToggle := Some (button1\<lparr>btn_icon := Some ''fas fa-play''\<rparr>)\<rparr>)))"

definition StoryCarousel_startAutoPlay :: "story_carousel \<Rightarrow> story_carousel outcome" where
  "StoryCarousel_startAutoPlay s =
     and_then (StoryCarousel_updateAutoPlayButton (s\<lparr>isAutoPlaying := True\<rparr>))
       (\<lambda>s1. let (handle, s2) = setInterval s1
              in Done (s2\<lparr>autoPlayInterval := Some handle\<rparr>))"

definition StoryCarousel_stopAutoPlay :: "story_carousel \<Rightarrow> story_carousel outcome" where
  "StoryCarousel_stopAutoPlay s =
     and_then (StoryCarousel_updateAutoPlayButton (s\<lparr>isAutoPlaying := False\<rparr>))
       (\<lambda>s1. case autoPlayInterval s1 of
                None \<Rightarrow> Done s1
              | Some h \<Rightarrow>
                  if h = 0 then Done s1
                  else Done ((clearInterval h s1)\<lparr>autoPlayInterval := None\<rparr>))"

definition StoryCarousel_toggleAutoPlay :: "story_carousel \<Rightarrow> story_carousel outcome" where
  "StoryCarousel_toggleAutoPlay s =
     (if isAutoPlaying s then StoryCarousel_stopAutoPlay s else StoryCarousel_startAutoPlay s)"

subsection \<open>AdvancedHeroCarousel\<close>

definition AdvancedHeroCarousel_startAutoPlay :: "hero_carousel \<Rightarrow> hero_carousel outcome" where
  "AdvancedHeroCarousel_startAutoPlay s =
     (if isAutoPlaying s
      then (let (handle, s1) = setInterval s in Done (s1\<lparr>autoPlayInterval := Some handle\<rparr>))
      else Done s)"

definition AdvancedHeroCarousel_pauseAutoPlay :: "hero_carousel \<Rightarrow> hero_carousel outcome" where
  "AdvancedHeroCarousel_pauseAutoPlay s =
     (case autoPlayInterval s of
        None \<Rightarrow> Done s
      | Some h \<Rightarrow> if h = 0 then Done s else Done (clearInterval h s))"

definition AdvancedHeroCarousel_resumeAutoPlay :: "hero_carousel \<Rightarrow> hero_carousel outcome" where
  "AdvancedHeroCarousel_resumeAutoPlay s =
     (if isAutoPlaying s then AdvancedHeroCarousel_startAutoPlay s else Done s)"

definition AdvancedHeroCarousel_resetAutoPlay :: "hero_carousel \<Rightarrow> hero_carousel outcome" where
  "AdvancedHeroCarousel_resetAutoPlay s =
     and_then (AdvancedHeroCarousel_pauseAutoPlay s) AdvancedHeroCarousel_resumeAutoPlay"

definition AdvancedHeroCarousel_toggleAutoPlay :: "hero_carousel \<Rightarrow> hero_carousel outcome" where
  "AdvancedHeroCarousel_toggleAutoPlay s =
     (let s1 = s\<lparr>isAutoPlaying := \<not> isAutoPlaying s\<rparr>
      in if isAutoPlaying s1 then AdvancedHeroCarousel_startAutoPlay s1
         else AdvancedHeroCarousel_pauseAutoPlay s1)"

definition AdvancedHeroCarousel_handleSwipe ::
  "hero_carousel \<Rightarrow> jsnum \<Rightarrow> jsnum \<Rightarrow> hero_carousel outcome" where
  "AdvancedHeroCarousel_handleSwipe s startX endX =
     (let threshold = Fin 50; diff = js_sub startX endX
      in if js_gt (js_abs diff) threshold
         then and_then (if js_gt diff (Fin 0) then AdvancedHeroCarousel_nextSlide s
                        else AdvancedHeroCarousel_prevSlide s)
                AdvancedHeroCarousel_resetAutoPlay
         else Done s)"

subsection \<open>The interval callbacks\<close>

text \<open>Both carousels schedule the callback \<open>() => this.nextSlide()\<close>. Over one period
  every scheduled interval runs it once.\<close>

definition StoryCarousel_period :: "story_carousel \<Rightarrow> story_carousel" where
  "StoryCarousel_period s = foldl (\<lambda>s1 handle. state_of (StoryCarousel_nextSlide s1)) s (intervals s)"

definition AdvancedHeroCarousel_period :: "hero_carousel \<Rightarrow> hero_carousel" where
  "AdvancedHeroCarousel_period s =
     foldl (\<lambda>s1 handle. state_of (AdvancedHeroCarousel_nextSlide s1)) s (intervals s)"

subsection \<open>The single-timer invariant\<close>

text \<open>
  What the specification asks of the timer state: at most one interval of the carousel
  is scheduled, it is the one whose handle is stored, and none is scheduled while
  auto-play is off. \<open>working_button\<close> says that the page has the toggle button with its
  icon, so that \<open>updateAutoPlayButton\<close> does not throw.
\<close>

definition one_timer :: "'a autoplayer_scheme \<Rightarrow> bool" where
  "one_timer s =
     (0 < next_handle s
      \<and> (case autoPlayInterval s of
            None \<Rightarrow> intervals s = []
          | Some h \<Rightarrow> intervals s = [] \<or> (h \<noteq> 0 \<and> intervals s = [h]))
      \<and> (isAutoPlaying s \<or> intervals s = []))"

definition working_button :: "story_carousel \<Rightarrow> bool" where
  "working_button s =
     (case autoPlayToggle s of None \<Rightarrow> False | Some button \<Rightarrow> btn_icon button \<noteq> None)"

datatype autoplay_call = Toggle | Pause | Reset

fun AdvancedHeroCarousel_autoplay_step :: "hero_carousel \<Rightarrow> autoplay_call \<Rightarrow> hero_carousel" where
  "AdvancedHeroCarousel_autoplay_step s Toggle = state_of (AdvancedHeroCarousel_toggleAutoPlay s)"
| "AdvancedHeroCarousel_autoplay_step s Pause = state_of (AdvancedHeroCarousel_pauseAutoPlay s)"
| "AdvancedHeroCarousel_autoplay_step s Reset = state_of (AdvancedHeroCarousel_resetAutoPlay s)"

section \<open>Scroll-driven reveal (js/api-client.js)\<close>

text \<open>
  The viewport as the handlers read it: \<open>window.innerHeight\<close>, \<open>window.pageYOffset\<close>,
  \<open>document.documentElement.scrollHeight\<close>, and \<open>getBoundingClientRect\<close> of each
  element (elements are numbered). An element of a reveal list carries the class the
  check adds (\<open>revealed\<close>, or \<open>in-view\<close> for \<open>.element-reveal\<close>); a \<open>.char-reveal\<close>
  element carries the \<open>revealed\<close> class of each of its \<open>.char\<close> spans.
\<close>

record rect =
  rect_top :: rat
  rect_bottom :: rat
  rect_height :: rat

record viewport =
  innerHeight :: rat
  pageYOffset :: rat
  scrollHeight :: rat
  getBoundingClientRect :: "nat \<Rightarrow> rect"

record reveal_element =
  element_id :: nat
  revealed :: bool

record char_element =
  char_element_id :: nat
  chars :: "bool list"

subsection \<open>ScrollReveal3D\<close>

record ScrollReveal3D =
  elements :: "reveal_element list"
  windowHeight :: rat

definition ScrollReveal3D_isInViewport :: "viewport \<Rightarrow> ScrollReveal3D \<Rightarrow> reveal_element \<Rightarrow> bool" where
  "ScrollReveal3D_isInViewport v s element =
     (let rect = getBoundingClientRect v (element_id element);
          threshold = js_mul (Fin (windowHeight s)) (Fin (1 / 10))
      in js_ge (Fin (rect_top rect)) (js_neg threshold)
         \<and> js_le (Fin (rect_bottom rect)) (js_add (Fin (windowHeight s)) threshold))"

definition ScrollReveal3D_revealElement :: "reveal_element \<Rightarrow> reveal_element" where
  "ScrollReveal3D_revealElement element =
     (if \<not> revealed element then element\<lparr>revealed := True\<rparr> else element)"

definition ScrollReveal3D_checkElements :: "viewport \<Rightarrow> ScrollReveal3D \<Rightarrow> ScrollReveal3D" where
  "ScrollReveal3D_checkElements v s =
     s\<lparr>elements :=
         map (\<lambda>element. if ScrollReveal3D_isInViewport v s element
                         then ScrollReveal3D_revealElement element else element)
           (elements s)\<rparr>"

subsection \<open>ProgressiveScrollReveal\<close>

record ProgressiveScrollReveal =
  scrollProgress :: "jsnum option"
  elementsToReveal :: "reveal_element list"
  charElements :: "char_element list"
  textLines :: "reveal_element list"

definition ProgressiveScrollReveal_isInViewport :: "viewport \<Rightarrow> nat \<Rightarrow> jsnum \<Rightarrow> bool" where
  "ProgressiveScrollReveal_isInViewport v element threshold =
     (let rect = getBoundingClientRect v element;
          windowHeight = Fin (innerHeight v);
          elementHeight = Fin (rect_height rect);
          elementTop = Fin (rect_top rect);
          elementBottom = Fin (rect_bottom rect);
          visibleHeight = js_sub (js_min elementBottom windowHeight) (js_max elementTop (Fin 0));
          visibilityRatio = js_div visibleHeight elementHeight
      in js_gt visibilityRatio threshold)"

definition ProgressiveScrollReveal_checkElements ::
  "viewport \<Rightarrow> ProgressiveScrollReveal \<Rightarrow> ProgressiveScrollReveal" where
  "ProgressiveScrollReveal_checkElements v s =
     (let s1 = s\<lparr>elementsToReveal :=
                   map (\<lambda>element.
                          if ProgressiveScrollReveal_isInViewport v (element_id element) (Fin (1 / 10))
                          then element\<lparr>revealed := True\<rparr> else element)
                     (elementsToReveal s)\<rparr>;
          s2 = s1\<lparr>charElements :=
                    map (\<lambda>element.
                           if ProgressiveScrollReveal_isInViewport v (char_element_id element) (Fin (2 / 10))
                           then element\<lparr>chars := map (\<lambda>char. True) (chars element)\<rparr> else element)
                      (charElements s1)\<rparr>
      in s2\<lparr>textLines :=
               map (\<lambda>line.
                      if ProgressiveScrollReveal_isInViewport v (element_id line) (Fin (1 / 10))
                      then line\<lparr>revealed := True\<rparr> else line)
                 (textLines s2)\<rparr>)"

definition ProgressiveScrollReveal_updateScrollProgress ::
  "viewport \<Rightarrow> ProgressiveScrollReveal \<Rightarrow> ProgressiveScrollReveal" where
  "ProgressiveScrollReveal_updateScrollProgress v s =
     (let docHeight = js_sub (Fin (scrollHeight v)) (Fin (innerHeight v));
          scrolled = Fin (pageYOffset v);
          progress = js_mul (js_div scrolled docHeight) (Fin 100)
      in case scrollProgress s of
           None \<Rightarrow> s
         | Some _ \<Rightarrow> s\<lparr>scrollProgress := Some (js_min progress (Fin 100))\<rparr>)"

subsection \<open>The page's scroll and resize handlers\<close>

text \<open>
  The listeners the two classes bind, in the order they are bound, and the animation
  frame callback \<open>updateScrollAnimations\<close> the page schedules on scroll (its calls into
  the classes that are not modelled are left out). Each event comes with the viewport
  the handlers find.
\<close>

record reveal_page =
  progressiveReveal :: ProgressiveScrollReveal
  scrollReveal :: ScrollReveal3D

datatype page_event = Scroll viewport | Resize viewport | AnimationFrame viewport

fun handle_event :: "reveal_page \<Rightarrow> page_event \<Rightarrow> reveal_page" where
  "handle_event p (Scroll v) =
     p\<lparr>progressiveReveal :=
         ProgressiveScrollReveal_checkElements v
           (ProgressiveScrollReveal_updateScrollProgress v (progressiveReveal p)),
       scrollReveal := ScrollReveal3D_checkElements v (scrollReveal p)\<rparr>"
| "handle_event p (Resize v) =
     p\<lparr>progressiveReveal := ProgressiveScrollReveal_checkElements v (progressiveReveal p),
       scrollReveal := (scrollReveal p)\<lparr>windowHeight := innerHeight v\<rparr>\<rparr>"
| "handle_event p (AnimationFrame v) =
     p\<lparr>progressiveReveal :=
         ProgressiveScrollReveal_checkElements v
           (ProgressiveScrollReveal_updateScrollProgress v (progressiveReveal p)),
       scrollReveal := ScrollReveal3D_checkElements v (scrollReveal p)\<rparr>"

definition handle_events :: "reveal_page \<Rightarrow> page_event list \<Rightarrow> reveal_page" where
  "handle_events p evs = foldl handle_event p evs"

text \<open>Every reveal flag of the page, in a fixed order.\<close>

definition reveal_flags :: "reveal_page \<Rightarrow> bool list" where
  "reveal_flags p =
     map revealed (elements (scrollReveal p))
     @ map revealed (elementsToReveal (progressiveReveal p))
     @ concat (map chars (charElements (progressiveReveal p)))
     @ map revealed (textLines (progressiveReveal p))"

text \<open>
  The specification's visibility ratio: the part of the element's box that lies in the
  viewport \<open>[0, innerHeight]\<close>, as a fraction of the box's height.
\<close>

definition visible_fraction :: "rect \<Rightarrow> rat \<Rightarrow> rat" where
  "visible_fraction r h =
     max 0 (min (rect_bottom r) h - max (rect_top r) 0) / rect_height r"

section \<open>firebaseAuth (js/firebase-auth.js)\<close>

text \<open>
  What a rejected provider call throws: an object whose \<open>code\<close> and \<open>message\<close> may each
  be missing. The display strings are Vietnamese in the source; they are written here
  without their diacritics. The provider's calls are the parameters of each operation:
  \<open>Inl\<close> is the rejection of the promise, \<open>Inr\<close> its value. \<open>saveUserData\<close> catches
  its own errors and is left out.
\<close>

record provider_error =
  error_code :: "string option"
  error_message :: "string option"

record auth_result =
  success :: bool
  message :: string
  user :: "string option"

text \<open>\<open>a || b\<close> on a string that may be undefined: the empty string is falsy too.\<close>

definition or_else :: "string option \<Rightarrow> string \<Rightarrow> string" where
  "or_else a b = (case a of None \<Rightarrow> b | Some x \<Rightarrow> if x = [] then b else x)"

definition register_generic :: string where
  "register_generic = ''Da co loi xay ra khi dang ky!''"

definition login_generic :: string where
  "login_generic = ''Da co loi xay ra khi dang nhap!''"

definition google_generic :: string where
  "google_generic = ''Da co loi xay ra khi dang nhap Google!''"

definition reset_generic :: string where
  "reset_generic = ''Da co loi xay ra khi gui email!''"

definition register_switch :: "string option \<Rightarrow> string" where
  "register_switch c =
     (if c = Some ''auth/email-already-in-use'' then ''Email nay da duoc su dung!''
      else if c = Some ''auth/invalid-email'' then ''Email khong hop le!''
      else if c = Some ''auth/weak-password'' then ''Mat khau qua yeu! Vui long chon mat khau manh hon.''
      else if c = Some ''auth/operation-not-allowed'' then ''Dang ky bang email chua duoc kich hoat!''
      else register_generic)"

definition register_catch :: "provider_error \<Rightarrow> auth_result" where
  "register_catch error =
     (let message = register_switch (error_code error)
      in \<lparr>success = False, message = or_else (error_message error) message, user = None\<rparr>)"

definition firebaseAuth_register ::
  "bool \<Rightarrow> provider_error + string \<Rightarrow> provider_error + unit \<Rightarrow> auth_result" where
  "firebaseAuth_register usernameExists createUserWithEmailAndPassword updateProfile =
     (if usernameExists
      then register_catch \<lparr>error_code = None, error_message = Some ''Ten dang nhap da ton tai!''\<rparr>
      else case createUserWithEmailAndPassword of
             Inl error \<Rightarrow> register_catch error
           | Inr u \<Rightarrow>
               (case updateProfile of
                  Inl error \<Rightarrow> register_catch error
                | Inr _ \<Rightarrow> \<lparr>success = True, message = ''Dang ky thanh cong!'', user = Some u\<rparr>))"

definition login_switch :: "string option \<Rightarrow> string" where
  "login_switch c =
     (if c = Some ''auth/user-not-found'' then ''Khong tim thay tai khoan voi email nay!''
      else if c = Some ''auth/wrong-password'' then ''Mat khau khong dung!''
      else if c = Some ''auth/invalid-email'' then ''Email khong hop le!''
      else if c = Some ''auth/user-disabled'' then ''Tai khoan da bi khoa!''
      else if c = Some ''auth/too-many-requests'' then ''Qua nhieu lan thu. Vui long thu lai sau!''
      else login_generic)"

definition firebaseAuth_login :: "provider_error + string \<Rightarrow> auth_result" where
  "firebaseAuth_login signInWithEmailAndPassword =
     (case signInWithEmailAndPassword of
        Inr u \<Rightarrow> \<lparr>success = True, message = ''Dang nhap thanh cong!'', user = Some u\<rparr>
      | Inl error \<Rightarrow>
          (let message = login_switch (error_code error)
           in \<lparr>success = False, message = message, user = None\<rparr>))"

definition google_switch :: "string option \<Rightarrow> string" where
  "google_switch c =
     (if c = Some ''auth/popup-closed-by-user'' then ''Dang nhap bi huy!''
      else if c = Some ''auth/popup-blocked'' then ''Popup bi chan! Vui long cho phep popup va thu lai.''
      else if c = Some ''auth/account-exists-with-different-credential''
        then ''Tai khoan da ton tai voi phuong thuc dang nhap khac!''
      else google_generic)"

definition firebaseAuth_loginWithGoogle :: "provider_error + string \<Rightarrow> auth_result" where
  "firebaseAuth_loginWithGoogle signInWithPopup =
     (case signInWithPopup of
        Inr u \<Rightarrow> \<lparr>success = True, message = ''Dang nhap Google thanh cong!'', user = Some u\<rparr>
      | Inl error \<Rightarrow>
          (let message = google_switch (error_code error)
           in \<lparr>success = False, message = message, user = None\<rparr>))"

definition reset_switch :: "string option \<Rightarrow> string" where
  "reset_switch c =
     (if c = Some ''auth/user-not-found'' then ''Khong tim thay tai khoan voi email nay!''
      else if c = Some ''auth/invalid-email'' then ''Email khong hop le!''
      else reset_generic)"

definition firebaseAuth_resetPassword :: "provider_error + unit \<Rightarrow> auth_result" where
  "firebaseAuth_resetPassword sendPasswordResetEmail =
     (case sendPasswordResetEmail of
        Inr _ \<Rightarrow> \<lparr>success = True, message = ''Email khoi phuc mat khau da duoc gui!'', user = None\<rparr>
      | Inl error \<Rightarrow>
          (let message = reset_switch (error_code error)
           in \<lparr>success = False, message = message, user = None\<rparr>))"

text \<open>The codes each operation's \<open>switch\<close> has a case for.\<close>

definition register_codes :: "string list" where
  "register_codes = [''auth/email-already-in-use'', ''auth/invalid-email'', ''auth/weak-password'',
     ''auth/operation-not-allowed'']"

definition login_codes :: "string list" where
  "login_codes = [''auth/user-not-found'', ''auth/wrong-password'', ''auth/invalid-email'',
     ''auth/user-disabled'', ''auth/too-many-requests'']"

definition google_codes :: "string list" where
  "google_codes = [''auth/popup-closed-by-user'', ''auth/popup-blocked'',
     ''auth/account-exists-with-different-credential'']"

definition reset_codes :: "string list" where
  "reset_codes = [''auth/user-not-found'', ''auth/invalid-email'']"

definition unmapped :: "string list \<Rightarrow> provider_error \<Rightarrow> bool" where
  "unmapped table error =
     (case error_code error of None \<Rightarrow> True | Some c \<Rightarrow> c \<notin> set table)"

section \<open>GameAPI.getCurrentUserId (js/api-client.js)\<close>

text \<open>
  \<open>atob\<close> and \<open>JSON.parse\<close> are the browser's: they are parameters, \<open>None\<close> where they
  throw (\<open>InvalidCharacterError\<close>, \<open>SyntaxError\<close>). The token is \<open>None\<close> when the storage
  has no \<open>access_token\<close>. An object is the list of its properties, the first binding of a
  name being the property.
\<close>

datatype json =
  JNull | JBool bool | JNumber rat | JString string | JArray "json list" | JObject "(string \<times> json) list"

datatype jsvalue = Null | Undefined | Value json | Builtin string

fun split_on :: "char \<Rightarrow> string \<Rightarrow> string list" where
  "split_on c [] = [[]]"
| "split_on c (x # xs) =
     (if x = c then [] # split_on c xs
      else (case split_on c xs of [] \<Rightarrow> [[x]] | w # ws \<Rightarrow> (x # w) # ws))"

text \<open>\<open>parts[1]\<close>, and the string \<open>atob\<close> makes of its argument.\<close>

definition second_segment :: "string list \<Rightarrow> string option" where
  "second_segment parts = (case parts of a # b # rest \<Rightarrow> Some b | _ \<Rightarrow> None)"

definition to_string :: "string option \<Rightarrow> string" where
  "to_string x = (case x of None \<Rightarrow> ''undefined'' | Some s \<Rightarrow> s)"

text \<open>\<open>payload.sub\<close>: a TypeError on \<open>null\<close>, the property of an object, the inherited
  method of a string, \<open>undefined\<close> on any other value.\<close>

fun get_sub :: "json \<Rightarrow> error + jsvalue" where
  "get_sub JNull = Inl TypeError"
| "get_sub (JObject props) =
     Inr (case map_of props ''sub'' of None \<Rightarrow> Undefined | Some x \<Rightarrow> Value x)"
| "get_sub (JString _) = Inr (Builtin ''String.prototype.sub'')"
| "get_sub _ = Inr Undefined"

definition getCurrentUserId_try ::
  "(string \<Rightarrow> string option) \<Rightarrow> (string \<Rightarrow> json option) \<Rightarrow> string \<Rightarrow> error + jsvalue" where
  "getCurrentUserId_try atob JSON_parse token =
     (case atob (to_string (second_segment (split_on CHR ''.'' token))) of
        None \<Rightarrow> Inl InvalidCharacterError
      | Some decoded \<Rightarrow>
          (case JSON_parse decoded of
             None \<Rightarrow> Inl SyntaxError
           | Some payload \<Rightarrow> get_sub payload))"

definition getCurrentUserId ::
  "(string \<Rightarrow> string option) \<Rightarrow> (string \<Rightarrow> json option) \<Rightarrow> string option \<Rightarrow> error + jsvalue" where
  "getCurrentUserId atob JSON_parse token =
     (case token of
        None \<Rightarrow> Inr Null
      | Some t \<Rightarrow>
          if t = [] then Inr Null
          else (case getCurrentUserId_try atob JSON_parse t of
                  Inl error \<Rightarrow> Inr Null
                | Inr sub \<Rightarrow> Inr sub))"

section \<open>Example pages\<close>

text \<open>
  The fields as the constructors assign them, on a page with \<open>n\<close> slides that has every
  element the carousel looks up.
\<close>

definition story_page :: "nat \<Rightarrow> story_carousel" where
  "story_page n =
     \<lparr>autoPlayInterval = None, isAutoPlaying = False, intervals = [], next_handle = 1,
      currentSlide = Fin 0, totalSlides = n,
      storySlides = Some (Fin 0), storyProgress = Some (Fin 0),
      indicators = map (\<lambda>i. i = 0) [0 ..< n],
      autoPlayToggle = Some \<lparr>btn_active = False, btn_icon = Some ''fas fa-play''\<rparr>\<rparr>"

definition hero_page :: "nat \<Rightarrow> hero_carousel" where
  "hero_page n =
     \<lparr>autoPlayInterval = None, isAutoPlaying = False, intervals = [], next_handle = 1,
      currentIndex = Fin 0, totalItems = n,
      items = replicate n \<lparr>item_active = False, style_left = [], style_transform = [],
                            style_zIndex = []\<rparr>,
      dots = replicate n False,
      progressBar = Some (Fin 0)\<rparr>"

text \<open>
  A box of height \<open>h\<close> whose top edge is \<open>t\<close> below the top of the viewport, a viewport in
  which every element has the same box, and a page with one element of each reveal list
  (numbered 0 to 3), none revealed yet.
\<close>

definition box :: "rat \<Rightarrow> rat \<Rightarrow> rect" where
  "box t h = \<lparr>rect_top = t, rect_bottom = t + h, rect_height = h\<rparr>"

definition uniform_viewport :: "rat \<Rightarrow> rat \<Rightarrow> rat \<Rightarrow> rect \<Rightarrow> viewport" where
  "uniform_viewport h y sh r =
     \<lparr>innerHeight = h, pageYOffset = y, scrollHeight = sh, getBoundingClientRect = (\<lambda>i. r)\<rparr>"

definition example_reveal_page :: reveal_page where
  "example_reveal_page =
     \<lparr>progressiveReveal =
        \<lparr>scrollProgress = Some (Fin 0),
         elementsToReveal = [\<lparr>element_id = 0, revealed = False\<rparr>],
         charElements = [\<lparr>char_element_id = 1, chars = [False, False]\<rparr>],
         textLines = [\<lparr>element_id = 2, revealed = False\<rparr>]\<rparr>,
      scrollReveal = \<lparr>elements = [\<lparr>element_id = 3, revealed = False\<rparr>], windowHeight = 1000\<rparr>\<rparr>"

text \<open>A browser's \<open>atob\<close> and \<open>JSON.parse\<close> at the one input the example token needs
  (\<open>dq\<close> is the double quote), throwing elsewhere.\<close>

definition dq :: char where
  "dq = CHR 0x22"

definition atob_example :: "string \<Rightarrow> string option" where
  "atob_example s =
     (if s = ''eyJzdWIiOiI0MiJ9''
      then Some (''{'' @ [dq] @ ''sub'' @ [dq] @ '':'' @ [dq] @ ''42'' @ [dq] @ ''}'')
      else None)"

definition JSON_parse_example :: "string \<Rightarrow> json option" where
  "JSON_parse_example s =
     (if s = ''{'' @ [dq] @ ''sub'' @ [dq] @ '':'' @ [dq] @ ''42'' @ [dq] @ ''}''
      then Some (JObject [(''sub'', JString ''42'')]) else None)"

section \<open>Properties: the cursor\<close>

subsection \<open>The remainder on non-negative integers\<close>

lemma js_rem_nonneg: "0 \<le> a \<Longrightarrow> 0 < n \<Longrightarrow> js_rem (Fin (of_int a)) (num n) = Fin (of_int (a mod int n))"
proof -
  assume a: "0 \<le> a" and n: "0 < n"
  have "(0::rat) \<le> of_int a / of_nat n" using a by simp
  moreover have "\<lfloor>(of_int a :: rat) / of_nat n\<rfloor> = a div int n"
    by (metis floor_divide_of_int_eq of_int_of_nat_eq)
  moreover have "a - int n * (a div int n) = a mod int n"
    by (simp add: minus_mult_div_eq_mod)
  ultimately show ?thesis using n
    apply (simp add: num_def js_trunc_def)
    by (metis of_int_diff of_int_mult of_int_of_nat_eq)
qed

lemma next_cursor_value:
  assumes "0 < n" shows "js_rem (js_add (num c) (Fin 1)) (num n) = Fin (of_int ((int c + 1) mod int n))"
proof -
  have "js_add (num c) (Fin 1) = Fin (of_int (int c + 1))" by (simp add: num_def)
  then show ?thesis using assms js_rem_nonneg [of "int c + 1" n] by simp
qed

lemma prev_cursor_value:
  assumes "0 < n"
  shows "js_rem (js_add (js_sub (num c) (Fin 1)) (num n)) (num n) = Fin (of_int ((int c - 1) mod int n))"
proof -
  have "js_add (js_sub (num c) (Fin 1)) (num n) = Fin (of_int (int c - 1 + int n))"
    by (simp add: num_def js_sub_def)
  moreover have "0 \<le> int c - 1 + int n" using assms by simp
  moreover have "(int c - 1 + int n) mod int n = (int c - 1) mod int n" by simp
  ultimately show ?thesis using assms js_rem_nonneg [of "int c - 1 + int n" n] by simp
qed

lemma updateSlide_cursor: "currentSlide (state_of (StoryCarousel_updateSlide s)) = currentSlide s
  \<and> totalSlides (state_of (StoryCarousel_updateSlide s)) = totalSlides s"
  by (simp add: StoryCarousel_updateSlide_def Let_def split: option.splits)

lemma updateCarousel_cursor: "currentIndex (state_of (AdvancedHeroCarousel_updateCarousel s)) = currentIndex s
  \<and> totalItems (state_of (AdvancedHeroCarousel_updateCarousel s)) = totalItems s"
  by (simp add: AdvancedHeroCarousel_updateCarousel_def Let_def split: option.splits)

lemma StoryCarousel_step_cursor:
  assumes "0 < totalSlides s" "currentSlide s = num c"
  shows "currentSlide (StoryCarousel_step s x) = Fin (of_int (step_cursor (totalSlides s) c x))
       \<and> totalSlides (StoryCarousel_step s x) = totalSlides s"
  using assms
  by (cases x)
     (simp_all add: step_cursor_def StoryCarousel_nextSlide_def StoryCarousel_prevSlide_def
        updateSlide_cursor next_cursor_value prev_cursor_value)

lemma AdvancedHeroCarousel_step_cursor:
  assumes "0 < totalItems s" "currentIndex s = num c"
  shows "currentIndex (AdvancedHeroCarousel_step s x) = Fin (of_int (step_cursor (totalItems s) c x))
       \<and> totalItems (AdvancedHeroCarousel_step s x) = totalItems s"
  using assms
  by (cases x)
     (simp_all add: step_cursor_def AdvancedHeroCarousel_nextSlide_def AdvancedHeroCarousel_prevSlide_def
        updateCarousel_cursor next_cursor_value prev_cursor_value)

lemma step_cursor_nat: "0 < n \<Longrightarrow> Fin (of_int (step_cursor n c x)) = num (nat (step_cursor n c x))"
  by (cases x) (simp_all add: step_cursor_def num_def)

lemma mod_shift: "((a::int) mod n + p - q) mod n = (a + p - q) mod n"
  by (metis add_diff_eq mod_add_left_eq)

lemma predicted_cursor_Cons:
  assumes "0 < n"
  shows "predicted_cursor n (nat (step_cursor n c x)) cs = predicted_cursor n c (x # cs)"
proof -
  let ?P = "int (count_list cs Next)" and ?Q = "int (count_list cs Previous)"
  show ?thesis
  proof (cases x)
    case Next
    have l: "predicted_cursor n (nat (step_cursor n c x)) cs = ((int c + 1) mod int n + ?P - ?Q) mod int n"
      using assms Next by (simp add: predicted_cursor_def step_cursor_def)
    have r: "predicted_cursor n c (x # cs) = (int c + 1 + ?P - ?Q) mod int n"
      using Next by (simp add: predicted_cursor_def algebra_simps)
    show ?thesis by (simp only: l r mod_shift)
  next
    case Previous
    have l: "predicted_cursor n (nat (step_cursor n c x)) cs = ((int c - 1) mod int n + ?P - ?Q) mod int n"
      using assms Previous by (simp add: predicted_cursor_def step_cursor_def)
    have r: "predicted_cursor n c (x # cs) = (int c - 1 + ?P - ?Q) mod int n"
      using Previous by (simp add: predicted_cursor_def algebra_simps)
    show ?thesis by (simp only: l r mod_shift)
  qed
qed

lemma predicted_cursor_Nil: "c < n \<Longrightarrow> predicted_cursor n c [] = int c"
  by (simp add: predicted_cursor_def)

lemma StoryCarousel_run_cursor:
  "0 < totalSlides s \<Longrightarrow> c < totalSlides s \<Longrightarrow> currentSlide s = num c \<Longrightarrow>
   currentSlide (StoryCarousel_run s cs) = Fin (of_int (predicted_cursor (totalSlides s) c cs))"
proof (induction cs arbitrary: s c)
  case Nil
  then show ?case by (simp add: StoryCarousel_run_def predicted_cursor_Nil num_def)
next
  case (Cons x cs)
  let ?s = "StoryCarousel_step s x" and ?c = "nat (step_cursor (totalSlides s) c x)"
  have st: "currentSlide ?s = num ?c" "totalSlides ?s = totalSlides s"
    using StoryCarousel_step_cursor [OF Cons.prems(1) Cons.prems(3)] step_cursor_nat [OF Cons.prems(1)]
    by simp_all
  have lt: "?c < totalSlides ?s"
    using Cons.prems(1) st(2) by (cases x) (simp_all add: step_cursor_def nat_less_iff)
  have "currentSlide (StoryCarousel_run ?s cs) = Fin (of_int (predicted_cursor (totalSlides ?s) ?c cs))"
    using Cons.IH [of ?s ?c] Cons.prems(1) st lt by simp
  then show ?case
    using predicted_cursor_Cons [OF Cons.prems(1)] st(2) by (simp add: StoryCarousel_run_def)
qed

lemma AdvancedHeroCarousel_run_cursor:
  "0 < totalItems s \<Longrightarrow> c < totalItems s \<Longrightarrow> currentIndex s = num c \<Longrightarrow>
   currentIndex (AdvancedHeroCarousel_run s cs) = Fin (of_int (predicted_cursor (totalItems s) c cs))"
proof (induction cs arbitrary: s c)
  case Nil
  then show ?case by (simp add: AdvancedHeroCarousel_run_def predicted_cursor_Nil num_def)
next
  case (Cons x cs)
  let ?s = "AdvancedHeroCarousel_step s x" and ?c = "nat (step_cursor (totalItems s) c x)"
  have st: "currentIndex ?s = num ?c" "totalItems ?s = totalItems s"
    using AdvancedHeroCarousel_step_cursor [OF Cons.prems(1) Cons.prems(3)] step_cursor_nat [OF Cons.prems(1)]
    by simp_all
  have lt: "?c < totalItems ?s"
    using Cons.prems(1) st(2) by (cases x) (simp_all add: step_cursor_def nat_less_iff)
  have "currentIndex (AdvancedHeroCarousel_run ?s cs) = Fin (of_int (predicted_cursor (totalItems ?s) ?c cs))"
    using Cons.IH [of ?s ?c] Cons.prems(1) st lt by simp
  then show ?case
    using predicted_cursor_Cons [OF Cons.prems(1)] st(2) by (simp add: AdvancedHeroCarousel_run_def)
qed

lemma predicted_cursor_range: "0 < n \<Longrightarrow> 0 \<le> predicted_cursor n c cs \<and> predicted_cursor n c cs < int n"
  by (simp add: predicted_cursor_def)

text \<open>
  C1. For a carousel (story or hero) with \<open>N \<ge> 1\<close> slides whose cursor starts at \<open>c0\<close> in
  \<open>[0, N)\<close>, after every prefix of a sequence of \<open>nextSlide\<close> and \<open>prevSlide\<close> calls the
  cursor is \<open>(c0 + number of next calls - number of previous calls) mod N\<close>, which lies
  in \<open>[0, N)\<close>. The prefix of length \<open>length cs\<close> is the whole sequence; the shorter
  ones are the intermediate points.
\<close>

theorem cursor_after_next_previous_calls:
  assumes "1 \<le> N" and "c0 < N"
    and "totalSlides s = N" and "currentSlide s = num c0"
    and "totalItems h = N" and "currentIndex h = num c0"
    and "k \<le> length cs"
  shows "currentSlide (StoryCarousel_run s (take k cs)) = Fin (of_int (predicted_cursor N c0 (take k cs)))
       \<and> currentIndex (AdvancedHeroCarousel_run h (take k cs)) = Fin (of_int (predicted_cursor N c0 (take k cs)))
       \<and> 0 \<le> predicted_cursor N c0 (take k cs) \<and> predicted_cursor N c0 (take k cs) < int N"
  using assms StoryCarousel_run_cursor [of s c0] AdvancedHeroCarousel_run_cursor [of h c0]
    predicted_cursor_range [of N c0]
  by simp

theorem cursor_after_next_previous_calls_witness:
  "currentSlide (StoryCarousel_run (story_page 5)
      [Next, Next, Next, Previous, Previous, Previous, Previous, Previous]) = Fin 3
   \<and> currentIndex (AdvancedHeroCarousel_run (hero_page 5)
      [Next, Next, Next, Previous, Previous, Previous, Previous, Previous]) = Fin 3"
proof -
  let ?cs = "[Next, Next, Next, Previous, Previous, Previous, Previous, Previous]"
  have "predicted_cursor 5 0 ?cs = 3" by (simp add: predicted_cursor_def)
  then show ?thesis
    using cursor_after_next_previous_calls [of 5 0 "story_page 5" "hero_page 5" 8 ?cs]
    by (simp add: story_page_def hero_page_def num_def)
qed

section \<open>Properties: goToSlide\<close>

text \<open>The hero carousel checks the index: outside \<open>[0, totalItems)\<close>, and on NaN and
  the infinities, the call returns without an error and changes nothing.\<close>

lemma AdvancedHeroCarousel_goToSlide_ignores:
  "x < 0 \<or> of_nat (totalItems s) \<le> x \<Longrightarrow> AdvancedHeroCarousel_goToSlide s (Fin x) = Done s"
  by (auto simp: AdvancedHeroCarousel_goToSlide_def js_ge_def js_le_def num_def)

lemma AdvancedHeroCarousel_goToSlide_ignores_special:
  "index \<in> {NaN, PosInf, NegInf} \<Longrightarrow> AdvancedHeroCarousel_goToSlide s index = Done s"
  by (auto simp: AdvancedHeroCarousel_goToSlide_def js_ge_def js_le_def num_def)

text \<open>
  C2. \<open>goToSlide(index)\<close> with an index outside \<open>[0, N)\<close> is to be ignored by both
  carousels, the cursor left as it was. The story carousel's \<open>goToSlide\<close> has no such
  check: on three slides with the cursor at 0, \<open>goToSlide(7)\<close> returns normally with the
  cursor at 7, which is not below the slide count, and renders that position (a
  translation of 700 percent, a progress width of 800/3 percent, no active indicator).
\<close>

theorem StoryCarousel_goToSlide_out_of_range:
  "StoryCarousel_goToSlide (story_page 3) (Fin 7) =
     Done ((story_page 3)\<lparr>currentSlide := Fin 7, storySlides := Some (Fin 700),
        storyProgress := Some (Fin (800 / 3)), indicators := [False, False, False]\<rparr>)
   \<and> \<not> js_lt (Fin 7) (num (totalSlides (story_page 3)))"
  by (simp add: StoryCarousel_goToSlide_def StoryCarousel_updateSlide_def story_page_def Let_def num_def upt_rec)

section \<open>Properties: auto-play timers\<close>

text \<open>
  Where the callers keep to the convention the invariant holds: any number of
  \<open>toggleAutoPlay\<close> calls on the story carousel, and any sequence of \<open>toggleAutoPlay\<close>,
  \<open>pauseAutoPlay\<close> and \<open>resetAutoPlay\<close> calls on the hero carousel, preserve it.
\<close>

lemma one_timer_length: "one_timer s \<Longrightarrow> length (intervals s) \<le> 1"
  by (auto simp: one_timer_def split: option.splits)

lemma StoryCarousel_toggleAutoPlay_one_timer:
  assumes "one_timer s" and "working_button s"
  shows "one_timer (state_of (StoryCarousel_toggleAutoPlay s))
       \<and> working_button (state_of (StoryCarousel_toggleAutoPlay s))
       \<and> completes (StoryCarousel_toggleAutoPlay s)"
  using assms
  by (auto simp: one_timer_def working_button_def StoryCarousel_toggleAutoPlay_def
      StoryCarousel_startAutoPlay_def StoryCarousel_stopAutoPlay_def
      StoryCarousel_updateAutoPlayButton_def setInterval_def clearInterval_def Let_def
      split: option.splits)

lemma StoryCarousel_toggles_one_timer:
  "one_timer s \<Longrightarrow> working_button s \<Longrightarrow>
   one_timer (((\<lambda>s. state_of (StoryCarousel_toggleAutoPlay s)) ^^ n) s)
   \<and> working_button (((\<lambda>s. state_of (StoryCarousel_toggleAutoPlay s)) ^^ n) s)"
  by (induction n) (simp_all add: StoryCarousel_toggleAutoPlay_one_timer)

lemma AdvancedHeroCarousel_autoplay_step_one_timer:
  "one_timer s \<Longrightarrow> one_timer (AdvancedHeroCarousel_autoplay_step s c)"
  by (cases c)
     (auto simp: one_timer_def AdvancedHeroCarousel_toggleAutoPlay_def
        AdvancedHeroCarousel_pauseAutoPlay_def AdvancedHeroCarousel_resetAutoPlay_def
        AdvancedHeroCarousel_resumeAutoPlay_def AdvancedHeroCarousel_startAutoPlay_def
        setInterval_def clearInterval_def Let_def split: option.splits)

lemma AdvancedHeroCarousel_autoplay_calls_one_timer:
  "one_timer s \<Longrightarrow> one_timer (foldl AdvancedHeroCarousel_autoplay_step s cs)"
  by (induction cs arbitrary: s) (simp_all add: AdvancedHeroCarousel_autoplay_step_one_timer)

text \<open>Stopping the story carousel when no handle is stored leaves the timers alone.\<close>

lemma StoryCarousel_stopAutoPlay_stopped:
  "autoPlayInterval s = None \<Longrightarrow> intervals (state_of (StoryCarousel_stopAutoPlay s)) = intervals s"
  by (simp add: StoryCarousel_stopAutoPlay_def StoryCarousel_updateAutoPlayButton_def Let_def
      split: option.splits)

text \<open>
  C3. At most one interval of a carousel is to be scheduled at any time, starting while
  running and stopping while stopped being no-ops. \<open>startAutoPlay\<close> of the story
  carousel schedules a new interval on every call and overwrites the stored handle:
  two calls leave the intervals 1 and 2 scheduled, so that one period moves the cursor
  by two slides; \<open>stopAutoPlay\<close> then clears only the second, and interval 1 keeps
  advancing a carousel that is stopped. On the hero carousel, after \<open>toggleAutoPlay\<close>
  has switched auto-play on, \<open>pauseAutoPlay\<close> (pointer enters), \<open>resetAutoPlay\<close> (a
  click) and \<open>resumeAutoPlay\<close> (pointer leaves) leave the intervals 2 and 3 scheduled
  together, and one period moves the cursor by two slides.
\<close>

theorem two_live_intervals:
  "(let s = state_of (and_then (StoryCarousel_startAutoPlay (story_page 3)) StoryCarousel_startAutoPlay)
    in intervals s = [1, 2] \<and> autoPlayInterval s = Some 2
       \<and> currentSlide (StoryCarousel_period s) = Fin 2)
   \<and> (let s = state_of (and_then (and_then (StoryCarousel_startAutoPlay (story_page 3))
                StoryCarousel_startAutoPlay) StoryCarousel_stopAutoPlay)
      in intervals s = [1] \<and> autoPlayInterval s = None \<and> \<not> isAutoPlaying s
         \<and> currentSlide (StoryCarousel_period s) = Fin 1)
   \<and> (let s = state_of (and_then (and_then (and_then
                (AdvancedHeroCarousel_toggleAutoPlay (hero_page 3))
                AdvancedHeroCarousel_pauseAutoPlay)
                AdvancedHeroCarousel_resetAutoPlay)
                AdvancedHeroCarousel_resumeAutoPlay)
      in intervals s = [2, 3] \<and> autoPlayInterval s = Some 3
         \<and> currentIndex (AdvancedHeroCarousel_period s) = Fin 2)"
  by code_simp

section \<open>Properties: rendering\<close>

text \<open>The hero carousel's render never throws; the story carousel's render completes
  exactly when the page has both \<open>#storySlides\<close> and \<open>#storyProgress\<close>.\<close>

lemma AdvancedHeroCarousel_updateCarousel_completes:
  "completes (AdvancedHeroCarousel_updateCarousel s)"
  by (simp add: AdvancedHeroCarousel_updateCarousel_def Let_def split: option.splits)

lemma StoryCarousel_updateSlide_completes_iff:
  "completes (StoryCarousel_updateSlide s) \<longleftrightarrow> storySlides s \<noteq> None \<and> storyProgress s \<noteq> None"
  by (auto simp: StoryCarousel_updateSlide_def Let_def split: option.splits)

text \<open>
  C4. The render step is not to throw when the progress bar or the indicators are
  missing from the page. \<open>updateSlide\<close> of the story carousel reads
  \<open>progressBar.style\<close> without a presence check: on a page without \<open>#storyProgress\<close> it
  throws a TypeError after it has moved the slides, and the indicators keep the mark of
  the slide shown before (here the first, while the cursor is at 1).
\<close>

theorem StoryCarousel_updateSlide_without_progress_bar:
  "StoryCarousel_updateSlide ((story_page 3)\<lparr>currentSlide := Fin 1, storyProgress := None\<rparr>) =
     Threw TypeError ((story_page 3)\<lparr>currentSlide := Fin 1, storyProgress := None,
        storySlides := Some (Fin 100)\<rparr>)
   \<and> indicators (state_of (StoryCarousel_updateSlide
         ((story_page 3)\<lparr>currentSlide := Fin 1, storyProgress := None\<rparr>))) = [True, False, False]"
  by (simp add: StoryCarousel_updateSlide_def story_page_def Let_def upt_rec)

section \<open>Properties: the reveal rules\<close>

text \<open>
  The check of \<open>ProgressiveScrollReveal\<close> compares the specification's visibility
  ratio with the threshold, for a box of positive height. The check of
  \<open>ScrollReveal3D\<close> does not look at the ratio: it asks for the whole box to lie in the
  viewport widened by a tenth of the window height above and below.
\<close>

lemma ProgressiveScrollReveal_isInViewport_fraction:
  assumes "0 < rect_height (getBoundingClientRect v i)" and "0 \<le> th"
  shows "ProgressiveScrollReveal_isInViewport v i (Fin th)
     \<longleftrightarrow> th < visible_fraction (getBoundingClientRect v i) (innerHeight v)"
proof -
  define r where "r = getBoundingClientRect v i"
  define d where "d = min (rect_bottom r) (innerHeight v) - max (rect_top r) 0"
  have h: "0 < rect_height r" using assms(1) by (simp add: r_def)
  have code: "ProgressiveScrollReveal_isInViewport v i (Fin th) \<longleftrightarrow> th < d / rect_height r"
    using h
    by (simp add: ProgressiveScrollReveal_isInViewport_def Let_def js_sub_def js_gt_def
        min_def max_def r_def d_def)
  have spec: "visible_fraction r (innerHeight v) = max 0 d / rect_height r"
    by (simp add: visible_fraction_def d_def)
  have "th < d / rect_height r \<longleftrightarrow> th < max 0 d / rect_height r"
  proof (cases "0 \<le> d")
    case True
    then show ?thesis by (simp add: max_def)
  next
    case False
    then have "d / rect_height r < 0" using h by (simp add: divide_neg_pos)
    moreover have "max 0 d / rect_height r = 0" using False by (simp add: max_def)
    ultimately show ?thesis using assms(2) by simp
  qed
  then show ?thesis using code spec by (simp add: r_def)
qed

lemma ScrollReveal3D_isInViewport_margin:
  "ScrollReveal3D_isInViewport v s e \<longleftrightarrow>
     - (windowHeight s / 10) \<le> rect_top (getBoundingClientRect v (element_id e))
     \<and> rect_bottom (getBoundingClientRect v (element_id e)) \<le> windowHeight s + windowHeight s / 10"
  by (auto simp: ScrollReveal3D_isInViewport_def Let_def js_ge_def js_le_def)

lemma ProgressiveScrollReveal_checkElements_flags:
  "map revealed (elementsToReveal (ProgressiveScrollReveal_checkElements v s))
     = map (\<lambda>e. revealed e \<or> ProgressiveScrollReveal_isInViewport v (element_id e) (Fin (1 / 10)))
         (elementsToReveal s)
   \<and> map chars (charElements (ProgressiveScrollReveal_checkElements v s))
     = map (\<lambda>e. if ProgressiveScrollReveal_isInViewport v (char_element_id e) (Fin (2 / 10))
                then map (\<lambda>c. True) (chars e) else chars e)
         (charElements s)
   \<and> map revealed (textLines (ProgressiveScrollReveal_checkElements v s))
     = map (\<lambda>e. revealed e \<or> ProgressiveScrollReveal_isInViewport v (element_id e) (Fin (1 / 10)))
         (textLines s)"
  by (simp add: ProgressiveScrollReveal_checkElements_def Let_def)

lemma ScrollReveal3D_checkElements_flags:
  "map revealed (elements (ScrollReveal3D_checkElements v s))
     = map (\<lambda>e. revealed e \<or> ScrollReveal3D_isInViewport v s e) (elements s)"
  by (simp add: ScrollReveal3D_checkElements_def ScrollReveal3D_revealElement_def)

text \<open>
  C5, as the code has it. On each check \<open>ProgressiveScrollReveal\<close> marks an element
  exactly when it is marked already or \<open>isInViewport\<close> holds at its threshold (0.1 for
  \<open>.element-reveal\<close> and the text lines, 0.2 for the characters of \<open>.char-reveal\<close>),
  and for a box of positive height and a threshold that is not negative \<open>isInViewport\<close>
  holds exactly when the fraction of the box that overlaps the viewport vertically
  exceeds the threshold. \<open>ScrollReveal3D\<close> marks an element exactly when it is marked
  already or the top of its box is at least \<open>-0.1 * windowHeight\<close> and its bottom at most
  \<open>1.1 * windowHeight\<close>: the ratio plays no part. Rounding of doubles is left out.
\<close>

theorem reveal_rules:
  assumes "0 < rect_height (getBoundingClientRect v i)" and "0 \<le> th"
  shows "(ProgressiveScrollReveal_isInViewport v i (Fin th)
            \<longleftrightarrow> th < visible_fraction (getBoundingClientRect v i) (innerHeight v))
       \<and> (ScrollReveal3D_isInViewport v s3 e
            \<longleftrightarrow> - (windowHeight s3 / 10) \<le> rect_top (getBoundingClientRect v (element_id e))
              \<and> rect_bottom (getBoundingClientRect v (element_id e))
                    \<le> windowHeight s3 + windowHeight s3 / 10)
       \<and> map revealed (elementsToReveal (ProgressiveScrollReveal_checkElements v s))
            = map (\<lambda>e. revealed e \<or> ProgressiveScrollReveal_isInViewport v (element_id e) (Fin (1 / 10)))
                (elementsToReveal s)
       \<and> map chars (charElements (ProgressiveScrollReveal_checkElements v s))
            = map (\<lambda>e. if ProgressiveScrollReveal_isInViewport v (char_element_id e) (Fin (2 / 10))
                       then map (\<lambda>c. True) (chars e) else chars e)
                (charElements s)
       \<and> map revealed (textLines (ProgressiveScrollReveal_checkElements v s))
            = map (\<lambda>e. revealed e \<or> ProgressiveScrollReveal_isInViewport v (element_id e) (Fin (1 / 10)))
                (textLines s)
       \<and> map revealed (elements (ScrollReveal3D_checkElements v s3))
            = map (\<lambda>e. revealed e \<or> ScrollReveal3D_isInViewport v s3 e) (elements s3)"
  using ProgressiveScrollReveal_isInViewport_fraction [OF assms]
    ScrollReveal3D_isInViewport_margin [of v s3 e]
    ProgressiveScrollReveal_checkElements_flags [of v s]
    ScrollReveal3D_checkElements_flags [of v s3]
  by simp

text \<open>A box of height 100 of which 15 pixels are in a viewport of height 1000: the ratio
  0.15 passes the threshold 0.1 and not the threshold 0.2.\<close>

theorem reveal_rules_witness:
  "visible_fraction (box 985 100) 1000 = 3 / 20
   \<and> ProgressiveScrollReveal_isInViewport (uniform_viewport 1000 0 3000 (box 985 100)) 0 (Fin (1 / 10))
   \<and> map revealed (elementsToReveal (ProgressiveScrollReveal_checkElements
         (uniform_viewport 1000 0 3000 (box 985 100)) (progressiveReveal example_reveal_page))) = [True]
   \<and> map chars (charElements (ProgressiveScrollReveal_checkElements
         (uniform_viewport 1000 0 3000 (box 985 100)) (progressiveReveal example_reveal_page))) = [[False, False]]"
proof -
  have f: "visible_fraction (box 985 100) 1000 = 3 / 20"
    by (simp add: visible_fraction_def box_def)
  have g: "\<not> ProgressiveScrollReveal_isInViewport (uniform_viewport 1000 0 3000 (box 985 100)) 1 (Fin (2 / 10))"
    using reveal_rules [of "uniform_viewport 1000 0 3000 (box 985 100)" 1 "2 / 10"] f
    by (simp add: uniform_viewport_def box_def)
  show ?thesis
    using f g reveal_rules [of "uniform_viewport 1000 0 3000 (box 985 100)" 0 "1 / 10"
        _ _ "progressiveReveal example_reveal_page"]
    by (simp add: uniform_viewport_def box_def example_reveal_page_def)
qed

text \<open>
  For \<open>ScrollReveal3D\<close> the rule of the visibility ratio fails both ways. A box from
  \<open>-200\<close> to \<open>1200\<close> covers the whole viewport of height 1000 (ratio 5/7, above 0.1, 0.2
  and 0.5) and is not revealed; a box from 1000 to 1050, wholly below the viewport
  (ratio 0), is revealed.
\<close>

theorem reveal_rule_counterexample:
  "1 / 2 < visible_fraction (box (- 200) 1400) 1000
   \<and> map revealed (elements (ScrollReveal3D_checkElements
        (uniform_viewport 1000 0 3000 (box (- 200) 1400)) (scrollReveal example_reveal_page))) = [False]
   \<and> visible_fraction (box 1000 50) 1000 = 0
   \<and> map revealed (elements (ScrollReveal3D_checkElements
        (uniform_viewport 1000 0 3000 (box 1000 50)) (scrollReveal example_reveal_page))) = [True]"
  by (simp add: visible_fraction_def box_def ScrollReveal3D_checkElements_def
      ScrollReveal3D_isInViewport_def ScrollReveal3D_revealElement_def uniform_viewport_def
      example_reveal_page_def Let_def js_ge_def js_le_def)

section \<open>Properties: the reveal state only grows\<close>

lemma flags_grow_refl: "list_all2 (\<longrightarrow>) xs xs"
  by (simp add: list_all2_same)

lemma flags_grow_trans:
  "list_all2 (\<longrightarrow>) xs ys \<Longrightarrow> list_all2 (\<longrightarrow>) ys zs \<Longrightarrow> list_all2 (\<longrightarrow>) xs zs"
  using list_all2_trans [of "(\<longrightarrow>)" "(\<longrightarrow>)" "(\<longrightarrow>)" xs ys zs] by blast

lemma flags_grow_reveal:
  "list_all2 (\<longrightarrow>) (map revealed xs) (map (\<lambda>e. revealed e \<or> P e) xs)"
  by (simp add: list_all2_map1 list_all2_map2 list_all2_same)

lemma flags_grow_chars:
  "list_all2 (\<longrightarrow>) (concat (map chars xs))
     (concat (map (\<lambda>e. if P e then map (\<lambda>c. True) (chars e) else chars e) xs))"
proof (induction xs)
  case Nil
  then show ?case by simp
next
  case (Cons x xs)
  have "list_all2 (\<longrightarrow>) (chars x) (if P x then map (\<lambda>c. True) (chars x) else chars x)"
    by (simp add: list_all2_map2 list_all2_same)
  then show ?case using Cons.IH by (simp add: list_all2_appendI)
qed

lemma updateScrollProgress_lists:
  "elementsToReveal (ProgressiveScrollReveal_updateScrollProgress v s) = elementsToReveal s
   \<and> charElements (ProgressiveScrollReveal_updateScrollProgress v s) = charElements s
   \<and> textLines (ProgressiveScrollReveal_updateScrollProgress v s) = textLines s"
  by (simp add: ProgressiveScrollReveal_updateScrollProgress_def Let_def split: option.splits)

lemma progressive_flags_grow:
  "list_all2 (\<longrightarrow>)
     (map revealed (elementsToReveal s) @ concat (map chars (charElements s)) @ map revealed (textLines s))
     (map revealed (elementsToReveal (ProgressiveScrollReveal_checkElements v s))
      @ concat (map chars (charElements (ProgressiveScrollReveal_checkElements v s)))
      @ map revealed (textLines (ProgressiveScrollReveal_checkElements v s)))"
  using ProgressiveScrollReveal_checkElements_flags [of v s]
  by (auto intro!: list_all2_appendI flags_grow_reveal flags_grow_chars)

lemma scrollReveal_flags_grow:
  "list_all2 (\<longrightarrow>) (map revealed (elements s)) (map revealed (elements (ScrollReveal3D_checkElements v s)))"
  by (simp add: ScrollReveal3D_checkElements_flags flags_grow_reveal)

lemma handle_event_flags_grow:
  "list_all2 (\<longrightarrow>) (reveal_flags p) (reveal_flags (handle_event p ev))"
proof (cases ev)
  case (Scroll v)
  show ?thesis
    unfolding reveal_flags_def Scroll
    using progressive_flags_grow [of "ProgressiveScrollReveal_updateScrollProgress v (progressiveReveal p)" v]
      scrollReveal_flags_grow [of "scrollReveal p" v]
    by (simp add: updateScrollProgress_lists list_all2_appendI)
next
  case (Resize v)
  show ?thesis
    unfolding reveal_flags_def Resize
    using progressive_flags_grow [of "progressiveReveal p" v]
    by (simp add: list_all2_appendI flags_grow_refl)
next
  case (AnimationFrame v)
  show ?thesis
    unfolding reveal_flags_def AnimationFrame
    using progressive_flags_grow [of "ProgressiveScrollReveal_updateScrollProgress v (progressiveReveal p)" v]
      scrollReveal_flags_grow [of "scrollReveal p" v]
    by (simp add: updateScrollProgress_lists list_all2_appendI)
qed

text \<open>
  C6. Once a reveal flag is set it stays set: after any sequence of scroll, resize and
  animation-frame events, with whatever viewport and boxes each event finds, every flag
  that was true before is true after (the lists of flags have the same length and are
  related position by position).
\<close>

theorem revealed_stays_revealed:
  "list_all2 (\<longrightarrow>) (reveal_flags p) (reveal_flags (handle_events p evs))"
proof (induction evs arbitrary: p)
  case Nil
  show ?case by (simp add: handle_events_def flags_grow_refl)
next
  case (Cons ev evs)
  have "list_all2 (\<longrightarrow>) (reveal_flags (handle_event p ev))
          (reveal_flags (handle_events (handle_event p ev) evs))"
    by (rule Cons.IH)
  then show ?case
    using handle_event_flags_grow [of p ev] flags_grow_trans
    by (simp add: handle_events_def)
qed

theorem revealed_stays_revealed_witness:
  "reveal_flags (handle_event example_reveal_page (Scroll (uniform_viewport 1000 0 3000 (box 985 100))))
     = [True, True, False, False, True]
   \<and> reveal_flags (handle_events
        (handle_event example_reveal_page (Scroll (uniform_viewport 1000 0 3000 (box 985 100))))
        [Scroll (uniform_viewport 1000 2000 3000 (box (- 1015) 100)),
         Resize (uniform_viewport 600 2000 3400 (box (- 1015) 100))])
     = [True, True, False, False, True]"
proof -
  let ?p = "handle_event example_reveal_page (Scroll (uniform_viewport 1000 0 3000 (box 985 100)))"
  let ?evs = "[Scroll (uniform_viewport 1000 2000 3000 (box (- 1015) 100)),
         Resize (uniform_viewport 600 2000 3400 (box (- 1015) 100))]"
  have a: "reveal_flags ?p = [True, True, False, False, True]"
    by code_simp
  have b: "length (reveal_flags (handle_events ?p ?evs)) = 5
      \<and> \<not> reveal_flags (handle_events ?p ?evs) ! 2 \<and> \<not> reveal_flags (handle_events ?p ?evs) ! 3"
    by code_simp
  have "list_all2 (\<longrightarrow>) [True, True, False, False, True] (reveal_flags (handle_events ?p ?evs))"
    using revealed_stays_revealed [of ?p ?evs] a by simp
  then show ?thesis using a b
    by (auto simp: list_all2_Cons1)
qed

section \<open>Properties: the scroll progress bar\<close>

text \<open>Without the \<open>#scrollProgress\<close> element nothing is written.\<close>

lemma updateScrollProgress_without_indicator:
  "scrollProgress s = None \<Longrightarrow> ProgressiveScrollReveal_updateScrollProgress v s = s"
  by (simp add: ProgressiveScrollReveal_updateScrollProgress_def Let_def)




section \<open>Properties: swipe\<close>

text \<open>
  C8. For a swipe from \<open>startX\<close> to \<open>endX\<close> on either carousel: if \<open>|startX - endX| > 50\<close>
  exactly one navigation is made, \<open>nextSlide\<close> when \<open>startX > endX\<close> (leftward) and
  \<open>prevSlide\<close> otherwise (the hero carousel then resets its auto-play); if the
  difference is 50 or less the state is returned unchanged. The instances below are the
  deltas of 49 and 51 pixels.
\<close>

theorem handleSwipe_threshold:
  "StoryCarousel_handleSwipe s (Fin startX) (Fin endX) =
     (if 50 < \<bar>startX - endX\<bar>
      then (if endX < startX then StoryCarousel_nextSlide s else StoryCarousel_prevSlide s)
      else Done s)
   \<and> AdvancedHeroCarousel_handleSwipe h (Fin startX) (Fin endX) =
     (if 50 < \<bar>startX - endX\<bar>
      then and_then (if endX < startX then AdvancedHeroCarousel_nextSlide h
                     else AdvancedHeroCarousel_prevSlide h) AdvancedHeroCarousel_resetAutoPlay
      else Done h)"
  by (simp add: StoryCarousel_handleSwipe_def AdvancedHeroCarousel_handleSwipe_def
      js_sub_def js_gt_def Let_def)

theorem handleSwipe_threshold_witness:
  "StoryCarousel_handleSwipe (story_page 5) (Fin 100) (Fin 51) = Done (story_page 5)
   \<and> StoryCarousel_handleSwipe (story_page 5) (Fin 100) (Fin 49) = StoryCarousel_nextSlide (story_page 5)
   \<and> currentSlide (state_of (StoryCarousel_handleSwipe (story_page 5) (Fin 100) (Fin 49))) = Fin 1
   \<and> AdvancedHeroCarousel_handleSwipe (hero_page 5) (Fin 100) (Fin 51) = Done (hero_page 5)
   \<and> currentIndex (state_of (AdvancedHeroCarousel_handleSwipe (hero_page 5) (Fin 100) (Fin 49))) = Fin 1"
proof -
  have a: "currentSlide (state_of (StoryCarousel_nextSlide (story_page 5))) = Fin 1"
    by code_simp
  have b: "currentIndex (state_of (and_then (AdvancedHeroCarousel_nextSlide (hero_page 5))
             AdvancedHeroCarousel_resetAutoPlay)) = Fin 1"
    by code_simp
  show ?thesis
    using a b handleSwipe_threshold [of "story_page 5" 100 51 "hero_page 5"]
      handleSwipe_threshold [of "story_page 5" 100 49 "hero_page 5"]
    by simp
qed

section \<open>Properties: provider errors\<close>

text \<open>
  \<open>login\<close>, \<open>loginWithGoogle\<close> and \<open>resetPassword\<close> answer a code outside their table
  with their generic message. \<open>register\<close> does so only when the error carries no
  message of its own.
\<close>

lemma siblings_fall_back:
  "(unmapped login_codes error \<longrightarrow>
      firebaseAuth_login (Inl error) = \<lparr>success = False, message = login_generic, user = None\<rparr>)
   \<and> (unmapped google_codes error \<longrightarrow>
      firebaseAuth_loginWithGoogle (Inl error) = \<lparr>success = False, message = google_generic, user = None\<rparr>)
   \<and> (unmapped reset_codes error \<longrightarrow>
      firebaseAuth_resetPassword (Inl error) = \<lparr>success = False, message = reset_generic, user = None\<rparr>)"
  by (auto simp: unmapped_def firebaseAuth_login_def firebaseAuth_loginWithGoogle_def
      firebaseAuth_resetPassword_def login_switch_def google_switch_def reset_switch_def
      login_codes_def google_codes_def reset_codes_def split: option.splits)

lemma register_falls_back_without_message:
  "unmapped register_codes error \<Longrightarrow> error_message error = None \<or> error_message error = Some [] \<Longrightarrow>
   register_catch error = \<lparr>success = False, message = register_generic, user = None\<rparr>"
  by (auto simp: unmapped_def register_catch_def register_switch_def or_else_def
      register_codes_def split: option.splits)

text \<open>
  C9. A rejection whose code is not in the operation's table is to be answered with the
  operation's generic message, never with the provider's text. \<open>register\<close> returns
  \<open>error.message || message\<close>: for the code \<open>auth/network-request-failed\<close>, which its
  table does not have, the result carries the provider's own message.
\<close>

theorem register_returns_provider_message:
  "unmapped register_codes
     \<lparr>error_code = Some ''auth/network-request-failed'',
      error_message = Some ''Firebase: Error (auth/network-request-failed).''\<rparr>
   \<and> firebaseAuth_register False
       (Inl \<lparr>error_code = Some ''auth/network-request-failed'',
             error_message = Some ''Firebase: Error (auth/network-request-failed).''\<rparr>) (Inr ())
     = \<lparr>success = False, message = ''Firebase: Error (auth/network-request-failed).'', user = None\<rparr>
   \<and> ''Firebase: Error (auth/network-request-failed).'' \<noteq> register_generic"
  by (simp add: unmapped_def register_codes_def firebaseAuth_register_def
      register_catch_def register_switch_def or_else_def register_generic_def)

section \<open>Properties: getCurrentUserId\<close>

text \<open>
  C10. \<open>getCurrentUserId\<close> always returns a value (it never throws, whatever \<open>atob\<close> and
  \<open>JSON.parse\<close> do): \<open>null\<close> when there is no token or the token is empty, \<open>null\<close> when
  the second dot-separated segment does not decode as base64 or the decoded text does
  not parse as JSON, and for a token whose second segment decodes to a JSON object the
  object's \<open>sub\<close> property (\<open>undefined\<close> when it has none). For any decoded payload the
  result is \<open>payload.sub\<close>, or \<open>null\<close> where reading it throws (the payload \<open>null\<close>).
\<close>

theorem getCurrentUserId_total:
  "(\<exists>v. getCurrentUserId atob JSON_parse token = Inr v)
   \<and> (token = None \<or> token = Some [] \<longrightarrow> getCurrentUserId atob JSON_parse token = Inr Null)
   \<and> (token = Some t \<and> atob (to_string (second_segment (split_on CHR ''.'' t))) = None
        \<longrightarrow> getCurrentUserId atob JSON_parse token = Inr Null)
   \<and> (token = Some t \<and> atob (to_string (second_segment (split_on CHR ''.'' t))) = Some decoded
        \<and> JSON_parse decoded = None
        \<longrightarrow> getCurrentUserId atob JSON_parse token = Inr Null)
   \<and> (token = Some t \<and> t \<noteq> []
        \<and> atob (to_string (second_segment (split_on CHR ''.'' t))) = Some decoded
        \<and> JSON_parse decoded = Some (JObject props)
        \<longrightarrow> getCurrentUserId atob JSON_parse token =
            Inr (case map_of props ''sub'' of None \<Rightarrow> Undefined | Some x \<Rightarrow> Value x))
   \<and> (token = Some t \<and> t \<noteq> []
        \<and> atob (to_string (second_segment (split_on CHR ''.'' t))) = Some decoded
        \<and> JSON_parse decoded = Some payload
        \<longrightarrow> getCurrentUserId atob JSON_parse token =
            Inr (case get_sub payload of Inl e \<Rightarrow> Null | Inr x \<Rightarrow> x))"
  by (auto simp: getCurrentUserId_def getCurrentUserId_try_def split: option.splits sum.splits)

theorem getCurrentUserId_total_witness:
  "getCurrentUserId atob_example JSON_parse_example (Some ''eyJhbGciOiJIUzI1NiJ9.eyJzdWIiOiI0MiJ9.c2ln'')
     = Inr (Value (JString ''42''))
   \<and> getCurrentUserId atob_example JSON_parse_example (Some ''not-a-token'') = Inr Null
   \<and> getCurrentUserId atob_example JSON_parse_example None = Inr Null"
  using getCurrentUserId_total [of atob_example JSON_parse_example
      "Some ''eyJhbGciOiJIUzI1NiJ9.eyJzdWIiOiI0MiJ9.c2ln''" "''eyJhbGciOiJIUzI1NiJ9.eyJzdWIiOiI0MiJ9.c2ln''"
      "''{'' @ [dq] @ ''sub'' @ [dq] @ '':'' @ [dq] @ ''42'' @ [dq] @ ''}''" "[(''sub'', JString ''42'')]"
      "JObject [(''sub'', JString ''42'')]"]
    getCurrentUserId_total [of atob_example JSON_parse_example "Some ''not-a-token''" "''not-a-token''"]
    getCurrentUserId_total [of atob_example JSON_parse_example None]
  by (simp add: to_string_def second_segment_def atob_example_def JSON_parse_example_def)

end
